theory Spec2Isabelle
  imports Complex_Main
begin

section \<open>The Leonardo image tool: submit, then poll\<close>

text \<open>
  A shallow embedding of \<^verbatim>\<open>src/agents/tools/leonardo-tool.ts\<close>: the
  \<^verbatim>\<open>execute\<close> operation of the tool and the poller it calls. Promises that
  reject and statements that throw are values of a sum type; the remote service is a
  script of replies; every sleep and every network call is recorded in a trace.
\<close>

subsection \<open>JavaScript values\<close>

text \<open>
  What \<^verbatim>\<open>JSON.parse\<close> can produce. A JavaScript \<^verbatim>\<open>number\<close> is taken as an
  exact rational. An object is the list of its own properties. \<^verbatim>\<open>undefined\<close>
  is \<open>None\<close>.
\<close>

datatype json =
    JNull
  | JBool bool
  | JNum rat
  | JStr string
  | JArr "json list"
  | JObj "(string \<times> json) list"

type_synonym jsval = "json option"

text \<open>
  A thrown value: an \<^verbatim>\<open>Error\<close> instance with its message, or any other value,
  kept as what \<^verbatim>\<open>String(error)\<close> gives for it.
\<close>

datatype exn = JsError string | JsThrown string

text \<open>The test of \<^verbatim>\<open>if (x)\<close>, \<^verbatim>\<open>!x\<close>, \<^verbatim>\<open>a || b\<close> and \<^verbatim>\<open>filter(Boolean)\<close>.\<close>

fun truthy :: "jsval \<Rightarrow> bool" where
  "truthy None = False"
| "truthy (Some JNull) = False"
| "truthy (Some (JBool b)) = b"
| "truthy (Some (JNum n)) = (n \<noteq> 0)"
| "truthy (Some (JStr s)) = (s \<noteq> [])"
| "truthy (Some (JArr xs)) = True"
| "truthy (Some (JObj kvs)) = True"

text \<open>The test of \<^verbatim>\<open>??\<close> and \<^verbatim>\<open>?.\<close>: null or undefined.\<close>

fun nullish :: "jsval \<Rightarrow> bool" where
  "nullish None = True"
| "nullish (Some JNull) = True"
| "nullish (Some v) = False"

text \<open>
  Property access \<^verbatim>\<open>x.k\<close> and \<^verbatim>\<open>x["k"]\<close>, for the property names this file reads
  (none of them is a property of a string, number, boolean or array): reading a
  property of null or undefined throws a TypeError.
\<close>

definition quoted :: "string \<Rightarrow> string" where
  "quoted k = CHR 0x27 # k @ [CHR 0x27]"

fun js_get :: "jsval \<Rightarrow> string \<Rightarrow> exn + jsval" where
  "js_get None k =
     Inl (JsError (''Cannot read properties of undefined (reading '' @ quoted k @ '')''))"
| "js_get (Some JNull) k =
     Inl (JsError (''Cannot read properties of null (reading '' @ quoted k @ '')''))"
| "js_get (Some (JObj kvs)) k = Inr (map_of kvs k)"
| "js_get (Some v) k = Inr None"

text \<open>\<^verbatim>\<open>a || b\<close> on strings.\<close>

definition or_else :: "string \<Rightarrow> string \<Rightarrow> string" where
  "or_else a b = (if a = [] then b else a)"

text \<open>A whole number in a template string: decimal digits, a minus sign below zero.\<close>

definition digit :: "nat \<Rightarrow> char" where
  "digit d = ''0123456789'' ! d"

function show_nat :: "nat \<Rightarrow> string" where
  "show_nat n = (if n < 10 then [digit n] else show_nat (n div 10) @ [digit (n mod 10)])"
  by pat_completeness auto
termination
  by (relation "measure (\<lambda>n. n)") auto

declare show_nat.simps [simp del]

definition show_int :: "int \<Rightarrow> string" where
  "show_int i = (if i < 0 then CHR ''-'' # show_nat (nat (- i)) else show_nat (nat i))"

subsection \<open>The remote service and the trace\<close>

text \<open>
  A \<^verbatim>\<open>Response\<close>: its status code and status text, its body as bytes, and what
  \<^verbatim>\<open>res.json()\<close> gives (a parsed value, or the error it throws).
\<close>

record response =
  status :: nat
  statusText :: string
  bodyText :: string
  bodyJson :: "exn + json"

definition ok :: "response \<Rightarrow> bool" where
  "ok res = (200 \<le> status res \<and> status res \<le> 299)"

text \<open>
  What awaiting \<^verbatim>\<open>fetch\<close> gives: a rejection (network failure, or the abort of the
  timeout signal attached to the call) or a response.
\<close>

datatype fetch_outcome = Rejected exn | Responded response

text \<open>
  The service as the workflow meets it: the reply to the one creation call, and the reply
  to each status query, numbered from 0 in the order the queries are issued.
\<close>

record remote =
  submitReply :: fetch_outcome
  statusReply :: "nat \<Rightarrow> fetch_outcome"

text \<open>The body of the creation call, the object given to \<^verbatim>\<open>JSON.stringify\<close>.\<close>

record generation_body =
  prompt :: "string option"
  num_images :: json
  width :: json
  height :: json
  presetStyle :: string

text \<open>
  What the workflow does to the outside, in order: \<^verbatim>\<open>sleep(ms)\<close>, the
  \<^verbatim>\<open>POST {base}/generations\<close> with the bearer key and the body, and the
  \<^verbatim>\<open>GET {base}/generations/{generationId}\<close> with the bearer key.
\<close>

datatype event =
    Sleep nat
  | Submit string generation_body
  | Query string json

fun is_query :: "event \<Rightarrow> bool" where
  "is_query (Query k g) = True"
| "is_query e = False"

definition status_queries :: "event list \<Rightarrow> nat" where
  "status_queries tr = length (filter is_query tr)"

fun slept :: "event list \<Rightarrow> nat" where
  "slept [] = 0"
| "slept (Sleep ms # tr) = ms + slept tr"
| "slept (e # tr) = slept tr"

text \<open>Every status query of the trace comes right after a sleep of \<open>ms\<close> milliseconds.\<close>

fun sleeps_before_queries :: "nat \<Rightarrow> event list \<Rightarrow> bool" where
  "sleeps_before_queries ms [] = True"
| "sleeps_before_queries ms (Sleep n # Query k g # tr) = (n = ms \<and> sleeps_before_queries ms tr)"
| "sleeps_before_queries ms (Query k g # tr) = False"
| "sleeps_before_queries ms (e # tr) = sleeps_before_queries ms tr"

subsection \<open>Helpers imported from the host framework\<close>

text \<open>
  \<^verbatim>\<open>readStringParam\<close> (from \<^verbatim>\<open>common.js\<close>) and \<^verbatim>\<open>readResponseText\<close> (from
  \<^verbatim>\<open>web-shared.js\<close>) are called by this file and defined elsewhere: they are
  parameters of the model. \<^verbatim>\<open>readStringParam params key required\<close> returns a string
  or undefined, or throws; \<^verbatim>\<open>readResponseText res maxBytes\<close> returns the
  \<^verbatim>\<open>text\<close> field of its result.
\<close>

record helpers =
  readStringParam :: "json \<Rightarrow> string \<Rightarrow> bool \<Rightarrow> exn + string option"
  readResponseText :: "response \<Rightarrow> nat \<Rightarrow> string"

text \<open>
  Modelled from the spec: \<^verbatim>\<open>jsonResult\<close> of \<^verbatim>\<open>common.js\<close>, defined outside this
  file; the operation returns the payload as its structured result.
\<close>

definition jsonResult :: "json \<Rightarrow> json" where
  "jsonResult payload = payload"

text \<open>
  Modelled from the spec: \<^verbatim>\<open>readStringParam\<close> of \<^verbatim>\<open>common.js\<close>, defined outside
  this file. A parameter that is a non-empty text is returned; otherwise a
  required parameter is an error and an optional one is undefined.
\<close>

definition spec_readStringParam :: "json \<Rightarrow> string \<Rightarrow> bool \<Rightarrow> exn + string option" where
  "spec_readStringParam params key required =
     (case js_get (Some params) key of
        Inl e \<Rightarrow> Inl e
      | Inr (Some (JStr s)) \<Rightarrow>
          (if s \<noteq> [] then Inr (Some s)
           else if required then Inl (JsError (key @ '' required'')) else Inr None)
      | Inr v \<Rightarrow> (if required then Inl (JsError (key @ '' required'')) else Inr None))"

text \<open>
  Modelled from the spec: \<^verbatim>\<open>readResponseText\<close> of \<^verbatim>\<open>web-shared.js\<close>, defined
  outside this file. It gives an excerpt of the response body of bounded length.
\<close>

definition spec_readResponseText :: "response \<Rightarrow> nat \<Rightarrow> string" where
  "spec_readResponseText res maxBytes = take maxBytes (bodyText res)"

definition spec_helpers :: helpers where
  "spec_helpers =
     \<lparr>readStringParam = spec_readStringParam, readResponseText = spec_readResponseText\<rparr>"

subsection \<open>The poller\<close>

definition POLL_INTERVAL_MS :: nat where
  "POLL_INTERVAL_MS = 2000"

definition POLL_MAX_ATTEMPTS :: nat where
  "POLL_MAX_ATTEMPTS = 30"

text \<open>Lines 50 to 53: the attempt budget, computed before the loop.\<close>

definition maxAttempts :: "rat \<Rightarrow> int" where
  "maxAttempts timeoutSeconds =
     min (int POLL_MAX_ATTEMPTS) \<lfloor>timeoutSeconds * 1000 / of_nat POLL_INTERVAL_MS\<rfloor>"

text \<open>Line 84: the URLs of the generated images, the falsy ones dropped.\<close>

fun image_urls :: "json list \<Rightarrow> exn + jsval list" where
  "image_urls [] = Inr []"
| "image_urls (img # imgs) =
     (case js_get (Some img) ''url'' of
        Inl e \<Rightarrow> Inl e
      | Inr u \<Rightarrow> (case image_urls imgs of Inl e \<Rightarrow> Inl e | Inr us \<Rightarrow> Inr (u # us)))"

definition collect_urls :: "jsval \<Rightarrow> exn + json list" where
  "collect_urls generated_images =
     (if nullish generated_images then Inr []
      else case generated_images of
          Some (JArr imgs) \<Rightarrow>
            (case image_urls imgs of
               Inl e \<Rightarrow> Inl e
             | Inr us \<Rightarrow> Inr (map the (filter truthy us)))
        | _ \<Rightarrow> Inl (JsError ''generation.generated_images.map is not a function''))"

text \<open>
  Lines 67 to 90: one cycle after its \<^verbatim>\<open>fetch\<close>. \<open>Inl\<close> is a throw,
  \<open>Inr (Some urls)\<close> the return of the URLs, \<open>Inr None\<close> falling through to the next
  cycle.
\<close>

definition poll_cycle :: "helpers \<Rightarrow> fetch_outcome \<Rightarrow> exn + json list option" where
  "poll_cycle H out =
     (case out of
        Rejected e \<Rightarrow> Inl e
      | Responded res \<Rightarrow>
          if \<not> ok res then
            Inl (JsError (''Leonardo poll error ('' @ show_nat (status res) @ ''): ''
                   @ or_else (readResponseText H res 4000) (statusText res)))
          else
            (case bodyJson res of
               Inl e \<Rightarrow> Inl e
             | Inr data \<Rightarrow>
                 (case js_get (Some data) ''generations_by_pk'' of
                    Inl e \<Rightarrow> Inl e
                  | Inr generation \<Rightarrow>
                      if \<not> truthy generation then
                        Inl (JsError ''Leonardo: unexpected poll response shape'')
                      else
                        (case js_get generation ''status'' of
                           Inl e \<Rightarrow> Inl e
                         | Inr st \<Rightarrow>
                             if st = Some (JStr ''FAILED'') then
                               Inl (JsError ''Leonardo generation failed'')
                             else if st = Some (JStr ''COMPLETE'') then
                               (case js_get generation ''generated_images'' of
                                  Inl e \<Rightarrow> Inl e
                                | Inr imgs \<Rightarrow>
                                    (case collect_urls imgs of
                                       Inl e \<Rightarrow> Inl e
                                     | Inr urls \<Rightarrow>
                                         if length urls = 0 then
                                           Inl (JsError
                                             ''Leonardo generation complete but no image URLs returned'')
                                         else Inr (Some urls)))
                             else Inr None))))"

text \<open>
  Lines 55 to 95: the loop from \<open>attempt\<close> on, with the result and the trace of what
  it did. The reply to the query of cycle \<open>attempt\<close> is \<open>replies attempt\<close>.
\<close>

function poll_loop ::
  "helpers \<Rightarrow> (nat \<Rightarrow> fetch_outcome) \<Rightarrow> json \<Rightarrow> string \<Rightarrow> int \<Rightarrow> nat
     \<Rightarrow> (exn + json list) \<times> event list" where
  "poll_loop H replies generationId apiKey maxA attempt =
     (if int attempt < maxA then
        (case poll_cycle H (replies attempt) of
           Inl e \<Rightarrow> (Inl e, [Sleep POLL_INTERVAL_MS, Query apiKey generationId])
         | Inr (Some urls) \<Rightarrow> (Inr urls, [Sleep POLL_INTERVAL_MS, Query apiKey generationId])
         | Inr None \<Rightarrow>
             (case poll_loop H replies generationId apiKey maxA (Suc attempt) of
                (r, tr) \<Rightarrow> (r, Sleep POLL_INTERVAL_MS # Query apiKey generationId # tr)))
      else
        (Inl (JsError (''Leonardo generation timed out after ''
                 @ show_int (maxA * int (POLL_INTERVAL_MS div 1000)) @ '' seconds'')), []))"
  by pat_completeness auto
termination
  by (relation "measure (\<lambda>(H, replies, generationId, apiKey, maxA, attempt). nat (maxA - int attempt))")
     auto

declare poll_loop.simps [simp del]

definition pollForCompletion ::
  "helpers \<Rightarrow> (nat \<Rightarrow> fetch_outcome) \<Rightarrow> json \<Rightarrow> string \<Rightarrow> rat
     \<Rightarrow> (exn + json list) \<times> event list" where
  "pollForCompletion H replies generationId apiKey timeoutSeconds =
     poll_loop H replies generationId apiKey (maxAttempts timeoutSeconds) 0"

subsection \<open>The tool's operation\<close>

text \<open>
  \<^verbatim>\<open>createLeonardoTool\<close> (lines 128 to 133) offers the tool only when an API key is
  resolved; \<open>apiKey\<close> below is that key, sent as the bearer of every call.
\<close>

text \<open>\<^verbatim>\<open>v ?? d\<close>.\<close>

definition default_to :: "jsval \<Rightarrow> json \<Rightarrow> json" where
  "default_to v d = (if nullish v then d else the v)"

text \<open>Lines 142 to 155: the parameters read and defaulted, and the request body.\<close>

definition build_body :: "helpers \<Rightarrow> json \<Rightarrow> exn + generation_body" where
  "build_body H args =
     (case readStringParam H args ''prompt'' True of
        Inl e \<Rightarrow> Inl e
      | Inr p \<Rightarrow>
     (case js_get (Some args) ''num_images'' of
        Inl e \<Rightarrow> Inl e
      | Inr n \<Rightarrow>
     (case js_get (Some args) ''width'' of
        Inl e \<Rightarrow> Inl e
      | Inr w \<Rightarrow>
     (case js_get (Some args) ''height'' of
        Inl e \<Rightarrow> Inl e
      | Inr h \<Rightarrow>
     (case readStringParam H args ''preset_style'' False of
        Inl e \<Rightarrow> Inl e
      | Inr ps \<Rightarrow>
          Inr \<lparr>prompt = p,
               num_images = default_to n (JNum 1),
               width = default_to w (JNum 1024),
               height = default_to h (JNum 1024),
               presetStyle = (case ps of None \<Rightarrow> ''FASHION'' | Some s \<Rightarrow> s)\<rparr>)))))"

text \<open>Line 176: \<^verbatim>\<open>data.sdGenerationJob?.generationId\<close>.\<close>

definition generationId_of :: "json \<Rightarrow> exn + jsval" where
  "generationId_of data =
     (case js_get (Some data) ''sdGenerationJob'' of
        Inl e \<Rightarrow> Inl e
      | Inr job \<Rightarrow> if nullish job then Inr None else js_get job ''generationId'')"

text \<open>Lines 168 to 180: the job identifier read from the reply to the creation call, or a throw.\<close>

definition submission :: "helpers \<Rightarrow> fetch_outcome \<Rightarrow> exn + json" where
  "submission H out =
     (case out of
        Rejected e \<Rightarrow> Inl e
      | Responded res \<Rightarrow>
          if \<not> ok res then
            Inl (JsError (''Leonardo generation request failed ('' @ show_nat (status res) @ ''): ''
                   @ or_else (readResponseText H res 4000) (statusText res)))
          else
            (case bodyJson res of
               Inl e \<Rightarrow> Inl e
             | Inr data \<Rightarrow>
                 (case generationId_of data of
                    Inl e \<Rightarrow> Inl e
                  | Inr generationId \<Rightarrow>
                      if \<not> truthy generationId then
                        Inl (JsError ''Leonardo: no generationId in response'')
                      else Inr (the generationId))))"

text \<open>Lines 142 to 188: the body of the \<^verbatim>\<open>try\<close> block.\<close>

definition execute_try ::
  "helpers \<Rightarrow> string \<Rightarrow> remote \<Rightarrow> json \<Rightarrow> (exn + json) \<times> event list" where
  "execute_try H apiKey R args =
     (case build_body H args of
        Inl e \<Rightarrow> (Inl e, [])
      | Inr body \<Rightarrow>
          (case submission H (submitReply R) of
             Inl e \<Rightarrow> (Inl e, [Submit apiKey body])
           | Inr generationId \<Rightarrow>
               (case pollForCompletion H (statusReply R) generationId apiKey 60 of
                  (Inl e, tr) \<Rightarrow> (Inl e, Submit apiKey body # tr)
                | (Inr imageUrls, tr) \<Rightarrow>
                    (Inr (jsonResult (JObj [(''generationId'', generationId),
                                            (''imageUrls'', JArr imageUrls),
                                            (''count'', JNum (of_nat (length imageUrls)))])),
                     Submit apiKey body # tr))))"

text \<open>Line 191: \<^verbatim>\<open>error instanceof Error ? error.message : String(error)\<close>.\<close>

fun error_text :: "exn \<Rightarrow> string" where
  "error_text (JsError message) = message"
| "error_text (JsThrown s) = s"

text \<open>
  Lines 140 to 195: \<^verbatim>\<open>execute\<close>, with its \<^verbatim>\<open>catch\<close>. Its promise is
  fulfilled (\<open>Inr\<close>) or rejected (\<open>Inl\<close>).
\<close>

definition execute ::
  "helpers \<Rightarrow> string \<Rightarrow> remote \<Rightarrow> json \<Rightarrow> (exn + json) \<times> event list" where
  "execute H apiKey R args =
     (case execute_try H apiKey R args of
        (Inr result, tr) \<Rightarrow> (Inr result, tr)
      | (Inl error, tr) \<Rightarrow>
          (Inr (jsonResult (JObj [(''error'', JStr (error_text error)),
                                  (''imageUrls'', JArr [])])), tr))"

subsection \<open>What a reply to a status query reports\<close>

text \<open>
  The \<^verbatim>\<open>status\<close> and the \<^verbatim>\<open>generated_images\<close> that lines 67 to 84 read from a
  reply: present when the call succeeded with a body that parses and has a truthy
  \<^verbatim>\<open>generations_by_pk\<close>.
\<close>

definition reply_generation :: "fetch_outcome \<Rightarrow> json option" where
  "reply_generation out =
     (case out of
        Rejected e \<Rightarrow> None
      | Responded res \<Rightarrow>
          if \<not> ok res then None
          else (case bodyJson res of
                  Inl e \<Rightarrow> None
                | Inr data \<Rightarrow>
                    (case js_get (Some data) ''generations_by_pk'' of
                       Inl e \<Rightarrow> None
                     | Inr generation \<Rightarrow> if truthy generation then generation else None)))"

definition field :: "json \<Rightarrow> string \<Rightarrow> jsval" where
  "field v k = (case v of JObj kvs \<Rightarrow> map_of kvs k | _ \<Rightarrow> None)"

definition reply_status :: "fetch_outcome \<Rightarrow> jsval option" where
  "reply_status out = map_option (\<lambda>generation. field generation ''status'') (reply_generation out)"

definition reply_images :: "fetch_outcome \<Rightarrow> jsval option" where
  "reply_images out =
     map_option (\<lambda>generation. field generation ''generated_images'') (reply_generation out)"

subsection \<open>Replies used in the examples\<close>

text \<open>
  A reply with status 200 and a JSON body, and the status report of the shape
  \<^verbatim>\<open>{ generations_by_pk: { status, generated_images } }\<close>.
\<close>

definition json_reply :: "json \<Rightarrow> fetch_outcome" where
  "json_reply data =
     Responded \<lparr>status = 200, statusText = ''OK'', bodyText = [], bodyJson = Inr data\<rparr>"

definition status_report :: "string \<Rightarrow> json list \<Rightarrow> fetch_outcome" where
  "status_report st imgs =
     json_reply (JObj [(''generations_by_pk'',
       JObj [(''status'', JStr st), (''generated_images'', JArr imgs)])])"

text \<open>A service that cannot be reached, and the reply that a job was created.\<close>

definition unreachable :: remote where
  "unreachable =
     \<lparr>submitReply = Rejected (JsError ''fetch failed''),
      statusReply = (\<lambda>k. Rejected (JsError ''fetch failed''))\<rparr>"

definition job_created :: "string \<Rightarrow> fetch_outcome" where
  "job_created g = json_reply (JObj [(''sdGenerationJob'', JObj [(''generationId'', JStr g)])])"

subsection \<open>The parameter schema and the bounds of the data model\<close>

text \<open>
  Lines 98 to 126: what \<^verbatim>\<open>LeonardoGenerateImageSchema\<close> declares for the arguments.
  \<^verbatim>\<open>prompt\<close> is a string; \<^verbatim>\<open>num_images\<close>, when present, is a number from 1 to 4;
  \<^verbatim>\<open>width\<close> and \<^verbatim>\<open>height\<close>, when present, are numbers (their limits stand in the
  descriptions only); \<^verbatim>\<open>preset_style\<close>, when present, is a string. The schema is
  handed to the host framework as \<^verbatim>\<open>parameters\<close>; \<^verbatim>\<open>execute\<close> does not consult it.
\<close>

definition LeonardoGenerateImageSchema :: "json \<Rightarrow> bool" where
  "LeonardoGenerateImageSchema args =
     (case args of
        JObj kvs \<Rightarrow>
          (case map_of kvs ''prompt'' of Some (JStr s) \<Rightarrow> True | _ \<Rightarrow> False) \<and>
          (case map_of kvs ''num_images'' of
             None \<Rightarrow> True | Some (JNum n) \<Rightarrow> 1 \<le> n \<and> n \<le> 4 | _ \<Rightarrow> False) \<and>
          (case map_of kvs ''width'' of None \<Rightarrow> True | Some (JNum w) \<Rightarrow> True | _ \<Rightarrow> False) \<and>
          (case map_of kvs ''height'' of None \<Rightarrow> True | Some (JNum h) \<Rightarrow> True | _ \<Rightarrow> False) \<and>
          (case map_of kvs ''preset_style'' of
             None \<Rightarrow> True | Some (JStr s) \<Rightarrow> True | _ \<Rightarrow> False)
      | _ \<Rightarrow> False)"

text \<open>
  The bounds of a request as the specification's data model words them, to compare with
  what is submitted: the image count a whole number from 1 to 4, width and height positive
  whole numbers, multiples of 8, at most 1536.
\<close>

definition spec_dimension :: "json \<Rightarrow> bool" where
  "spec_dimension v =
     (case v of
        JNum w \<Rightarrow> w = of_int \<lfloor>w\<rfloor> \<and> 0 < w \<and> \<lfloor>w\<rfloor> mod 8 = 0 \<and> w \<le> 1536
      | _ \<Rightarrow> False)"

definition spec_request_bounds :: "generation_body \<Rightarrow> bool" where
  "spec_request_bounds body =
     ((case num_images body of
         JNum n \<Rightarrow> n = of_int \<lfloor>n\<rfloor> \<and> 1 \<le> n \<and> n \<le> 4
       | _ \<Rightarrow> False) \<and>
      spec_dimension (width body) \<and> spec_dimension (height body))"

section \<open>The loop of the poller\<close>

text \<open>The four ways one cycle of the loop can go.\<close>

lemma poll_loop_stop:
  "\<not> int a < maxA \<Longrightarrow>
   poll_loop H replies g key maxA a =
     (Inl (JsError (''Leonardo generation timed out after ''
             @ show_int (maxA * int (POLL_INTERVAL_MS div 1000)) @ '' seconds'')), [])"
  by (simp add: poll_loop.simps [of H replies g key maxA a])

lemma poll_loop_throw:
  "int a < maxA \<Longrightarrow> poll_cycle H (replies a) = Inl e \<Longrightarrow>
   poll_loop H replies g key maxA a = (Inl e, [Sleep POLL_INTERVAL_MS, Query key g])"
  by (simp add: poll_loop.simps [of H replies g key maxA a])

lemma poll_loop_return:
  "int a < maxA \<Longrightarrow> poll_cycle H (replies a) = Inr (Some urls) \<Longrightarrow>
   poll_loop H replies g key maxA a = (Inr urls, [Sleep POLL_INTERVAL_MS, Query key g])"
  by (simp add: poll_loop.simps [of H replies g key maxA a])

lemma poll_loop_continue:
  "int a < maxA \<Longrightarrow> poll_cycle H (replies a) = Inr None \<Longrightarrow>
   poll_loop H replies g key maxA a =
     (fst (poll_loop H replies g key maxA (Suc a)),
      Sleep POLL_INTERVAL_MS # Query key g # snd (poll_loop H replies g key maxA (Suc a)))"
  by (simp add: poll_loop.simps [of H replies g key maxA a] case_prod_beta)

lemma poll_loop_cases:
  obtains (stop) "\<not> int a < maxA"
  | (throw) e where "int a < maxA" "poll_cycle H (replies a) = Inl e"
  | (return) urls where "int a < maxA" "poll_cycle H (replies a) = Inr (Some urls)"
  | (continue) "int a < maxA" "poll_cycle H (replies a) = Inr None"
  by (cases "poll_cycle H (replies a)"; cases "int a < maxA"; auto)

lemma status_queries_simps [simp]:
  "status_queries [] = 0"
  "status_queries (Sleep ms # tr) = status_queries tr"
  "status_queries (Submit key b # tr) = status_queries tr"
  "status_queries (Query key g # tr) = Suc (status_queries tr)"
  by (simp_all add: status_queries_def)

lemma poll_loop_trace:
  "snd (poll_loop H replies g key maxA a) =
     concat (replicate (status_queries (snd (poll_loop H replies g key maxA a)))
               [Sleep POLL_INTERVAL_MS, Query key g])"
proof (induction H replies g key maxA a rule: poll_loop.induct)
  case (1 H replies g key maxA a)
  show ?case
  proof (cases rule: poll_loop_cases [where a=a and maxA=maxA and H=H and replies=replies])
    case stop
    then show ?thesis by (simp add: poll_loop_stop)
  next
    case (throw e)
    then show ?thesis by (simp add: poll_loop_throw)
  next
    case (return urls)
    then show ?thesis by (simp add: poll_loop_return)
  next
    case continue
    with "1.IH" [OF continue refl] show ?thesis
      by (simp add: poll_loop_continue)
  qed
qed

lemma poll_loop_bound:
  "int (status_queries (snd (poll_loop H replies g key maxA a))) \<le> max 0 (maxA - int a)"
proof (induction H replies g key maxA a rule: poll_loop.induct)
  case (1 H replies g key maxA a)
  show ?case
  proof (cases rule: poll_loop_cases [where a=a and maxA=maxA and H=H and replies=replies])
    case stop
    then show ?thesis by (simp add: poll_loop_stop)
  next
    case (throw e)
    then show ?thesis by (simp add: poll_loop_throw)
  next
    case (return urls)
    then show ?thesis by (simp add: poll_loop_return)
  next
    case continue
    with "1.IH" [OF continue refl] show ?thesis
      by (simp add: poll_loop_continue)
  qed
qed

text \<open>A reply that ends the loop is the last one queried, and decides the result.\<close>

lemma poll_loop_terminal:
  "j < status_queries (snd (poll_loop H replies g key maxA a)) \<Longrightarrow>
   poll_cycle H (replies (a + j)) \<noteq> Inr None \<Longrightarrow>
   status_queries (snd (poll_loop H replies g key maxA a)) = Suc j \<and>
   fst (poll_loop H replies g key maxA a) =
     (case poll_cycle H (replies (a + j)) of Inl e \<Rightarrow> Inl e | Inr r \<Rightarrow> Inr (the r))"
proof (induction j arbitrary: a)
  case 0
  show ?case
  proof (cases rule: poll_loop_cases [where a=a and maxA=maxA and H=H and replies=replies])
    case stop
    with 0 show ?thesis by (simp add: poll_loop_stop)
  next
    case (throw e)
    then show ?thesis by (simp add: poll_loop_throw)
  next
    case (return urls)
    then show ?thesis by (simp add: poll_loop_return)
  next
    case continue
    with 0 show ?thesis by simp
  qed
next
  case (Suc j)
  show ?case
  proof (cases rule: poll_loop_cases [where a=a and maxA=maxA and H=H and replies=replies])
    case stop
    with Suc.prems show ?thesis by (simp add: poll_loop_stop)
  next
    case (throw e)
    with Suc.prems show ?thesis by (simp add: poll_loop_throw)
  next
    case (return urls)
    with Suc.prems show ?thesis by (simp add: poll_loop_return)
  next
    case continue
    with Suc.prems Suc.IH [of "Suc a"] show ?thesis
      by (simp add: poll_loop_continue)
  qed
qed

text \<open>While the replies keep the loop going, it runs to the end of its budget.\<close>

lemma poll_loop_pending:
  "\<forall>k. a \<le> k \<and> int k < maxA \<longrightarrow> poll_cycle H (replies k) = Inr None \<Longrightarrow>
   poll_loop H replies g key maxA a =
     (Inl (JsError (''Leonardo generation timed out after ''
             @ show_int (maxA * int (POLL_INTERVAL_MS div 1000)) @ '' seconds'')),
      concat (replicate (nat (maxA - int a)) [Sleep POLL_INTERVAL_MS, Query key g]))"
proof (induction H replies g key maxA a rule: poll_loop.induct)
  case (1 H replies g key maxA a)
  show ?case
  proof (cases "int a < maxA")
    case False
    then show ?thesis by (simp add: poll_loop_stop)
  next
    case True
    with "1.prems" have c: "poll_cycle H (replies a) = Inr None" by simp
    have "\<forall>k. Suc a \<le> k \<and> int k < maxA \<longrightarrow> poll_cycle H (replies k) = Inr None"
      using "1.prems" by simp
    with "1.IH" [OF True c refl] 
    have "poll_loop H replies g key maxA (Suc a) =
     (Inl (JsError (''Leonardo generation timed out after ''
             @ show_int (maxA * int (POLL_INTERVAL_MS div 1000)) @ '' seconds'')),
      concat (replicate (nat (maxA - int (Suc a))) [Sleep POLL_INTERVAL_MS, Query key g]))"
      by blast
    moreover from True have "nat (maxA - int a) = Suc (nat (maxA - int (Suc a)))" by simp
    ultimately show ?thesis using True c
      by (simp add: poll_loop_continue)
  qed
qed

section \<open>What one reply does to a cycle\<close>

lemma js_get_field: "truthy (Some v) \<Longrightarrow> js_get (Some v) k = Inr (field v k)"
  by (cases v) (simp_all add: field_def)

lemma reply_generation_Some:
  "reply_generation out = Some gen \<Longrightarrow>
   \<exists>res data. out = Responded res \<and> ok res \<and> bodyJson res = Inr data \<and>
     js_get (Some data) ''generations_by_pk'' = Inr (Some gen) \<and> truthy (Some gen)"
  by (auto simp: reply_generation_def split: fetch_outcome.splits if_splits sum.splits)

lemma poll_cycle_generation:
  assumes "reply_generation out = Some gen"
  shows "poll_cycle H out =
     (if field gen ''status'' = Some (JStr ''FAILED'') then
        Inl (JsError ''Leonardo generation failed'')
      else if field gen ''status'' = Some (JStr ''COMPLETE'') then
        (case collect_urls (field gen ''generated_images'') of
           Inl e \<Rightarrow> Inl e
         | Inr urls \<Rightarrow>
             if urls = [] then
               Inl (JsError ''Leonardo generation complete but no image URLs returned'')
             else Inr (Some urls))
      else Inr None)"
proof -
  from reply_generation_Some [OF assms] obtain res data where
    "out = Responded res" "ok res" "bodyJson res = Inr data"
    "js_get (Some data) ''generations_by_pk'' = Inr (Some gen)" "truthy (Some gen)"
    by blast
  then show ?thesis
    by (auto simp: poll_cycle_def js_get_field split: sum.splits)
qed

lemma poll_cycle_pending:
  assumes "reply_status out = Some st"
    and "st \<noteq> Some (JStr ''COMPLETE'')" and "st \<noteq> Some (JStr ''FAILED'')"
  shows "poll_cycle H out = Inr None"
proof -
  from assms(1) obtain gen where "reply_generation out = Some gen" "st = field gen ''status''"
    by (auto simp: reply_status_def)
  with assms(2,3) show ?thesis
    by (simp add: poll_cycle_generation)
qed

lemma maxAttempts_eq: "maxAttempts t = min 30 \<lfloor>t * 1000 / 2000\<rfloor>"
  by (simp add: maxAttempts_def POLL_MAX_ATTEMPTS_def POLL_INTERVAL_MS_def)

lemma status_queries_cycles [simp]:
  "status_queries (concat (replicate n [Sleep ms, Query key g])) = n"
  by (induction n) simp_all

lemma js_get_non_null: "v \<noteq> JNull \<Longrightarrow> js_get (Some v) k = Inr (field v k)"
  by (cases v) (simp_all add: field_def)

lemma image_urls_fields:
  "JNull \<notin> set imgs \<Longrightarrow> image_urls imgs = Inr (map (\<lambda>img. field img ''url'') imgs)"
  by (induction imgs) (simp_all add: js_get_non_null [OF not_sym])

lemma poll_cycle_failed:
  assumes "reply_status out = Some (Some (JStr ''FAILED''))"
  shows "poll_cycle H out = Inl (JsError ''Leonardo generation failed'')"
proof -
  from assms obtain gen where
    "reply_generation out = Some gen" "field gen ''status'' = Some (JStr ''FAILED'')"
    by (auto simp: reply_status_def)
  then show ?thesis
    by (simp add: poll_cycle_generation)
qed

lemma poll_cycle_complete:
  assumes "reply_status out = Some (Some (JStr ''COMPLETE''))"
    and "reply_images out = Some imgs"
  shows "poll_cycle H out =
     (case collect_urls imgs of
        Inl e \<Rightarrow> Inl e
      | Inr urls \<Rightarrow>
          if urls = [] then
            Inl (JsError ''Leonardo generation complete but no image URLs returned'')
          else Inr (Some urls))"
proof -
  from assms obtain gen where
    "reply_generation out = Some gen" "field gen ''status'' = Some (JStr ''COMPLETE'')"
    "field gen ''generated_images'' = imgs"
    by (auto simp: reply_status_def reply_images_def)
  then show ?thesis
    by (simp add: poll_cycle_generation)
qed

lemma collect_urls_array:
  "JNull \<notin> set imgs \<Longrightarrow>
   collect_urls (Some (JArr imgs)) =
     Inr (map the (filter truthy (map (\<lambda>img. field img ''url'') imgs)))"
  by (simp add: collect_urls_def image_urls_fields)

lemma poll_cycle_nonempty: "poll_cycle H out = Inr (Some urls) \<Longrightarrow> urls \<noteq> []"
  by (auto simp: poll_cycle_def split: fetch_outcome.splits if_splits sum.splits)

lemma poll_loop_nonempty: "fst (poll_loop H replies g key maxA a) \<noteq> Inr []"
proof (induction H replies g key maxA a rule: poll_loop.induct)
  case (1 H replies g key maxA a)
  show ?case
  proof (cases rule: poll_loop_cases [where a=a and maxA=maxA and H=H and replies=replies])
    case stop
    then show ?thesis by (simp add: poll_loop_stop)
  next
    case (throw e)
    then show ?thesis by (simp add: poll_loop_throw)
  next
    case (return urls)
    with poll_cycle_nonempty [OF return(2)] show ?thesis by (simp add: poll_loop_return)
  next
    case continue
    with "1.IH" [OF continue refl] show ?thesis
      by (simp add: poll_loop_continue)
  qed
qed

lemma pollForCompletion_terminal:
  assumes "k < status_queries (snd (pollForCompletion H replies g key t))"
    and "poll_cycle H (replies k) \<noteq> Inr None"
  shows "status_queries (snd (pollForCompletion H replies g key t)) = Suc k"
    and "fst (pollForCompletion H replies g key t) =
           (case poll_cycle H (replies k) of Inl e \<Rightarrow> Inl e | Inr r \<Rightarrow> Inr (the r))"
  using poll_loop_terminal [of k H replies g key "maxAttempts t" 0] assms
  by (simp_all add: pollForCompletion_def)

section \<open>The operation around the poller\<close>

lemma execute_no_body:
  "build_body H args = Inl e \<Longrightarrow>
   execute H apiKey R args =
     (Inr (jsonResult (JObj [(''error'', JStr (error_text e)), (''imageUrls'', JArr [])])), [])"
  by (simp add: execute_def execute_try_def)

lemma execute_no_job:
  "build_body H args = Inr body \<Longrightarrow> submission H (submitReply R) = Inl e \<Longrightarrow>
   execute H apiKey R args =
     (Inr (jsonResult (JObj [(''error'', JStr (error_text e)), (''imageUrls'', JArr [])])),
      [Submit apiKey body])"
  by (simp add: execute_def execute_try_def)

lemma execute_polled:
  "build_body H args = Inr body \<Longrightarrow> submission H (submitReply R) = Inr g \<Longrightarrow>
   execute H apiKey R args =
     (Inr (jsonResult
        (case fst (pollForCompletion H (statusReply R) g apiKey 60) of
           Inl e \<Rightarrow> JObj [(''error'', JStr (error_text e)), (''imageUrls'', JArr [])]
         | Inr imageUrls \<Rightarrow>
             JObj [(''generationId'', g), (''imageUrls'', JArr imageUrls),
                   (''count'', JNum (of_nat (length imageUrls)))])),
      Submit apiKey body # snd (pollForCompletion H (statusReply R) g apiKey 60))"
  by (cases "pollForCompletion H (statusReply R) g apiKey 60")
     (simp add: execute_def execute_try_def split: sum.splits)

lemma execute_cases:
  obtains (no_body) e where "build_body H args = Inl e"
  | (no_job) body e where "build_body H args = Inr body" "submission H (submitReply R) = Inl e"
  | (polled) body g where "build_body H args = Inr body" "submission H (submitReply R) = Inr g"
  by (cases "build_body H args"; cases "submission H (submitReply R)"; auto)

lemma execute_try_Inl:
  "fst (execute_try H apiKey R args) = Inl e \<Longrightarrow>
   fst (execute H apiKey R args) =
     Inr (jsonResult (JObj [(''error'', JStr (error_text e)), (''imageUrls'', JArr [])]))"
  by (cases "execute_try H apiKey R args") (simp add: execute_def)

lemma build_body_object:
  assumes "readStringParam H (JObj kvs) ''prompt'' True = Inr p"
    and "readStringParam H (JObj kvs) ''preset_style'' False = Inr ps"
  shows "build_body H (JObj kvs) =
     Inr \<lparr>prompt = p,
          num_images = default_to (map_of kvs ''num_images'') (JNum 1),
          width = default_to (map_of kvs ''width'') (JNum 1024),
          height = default_to (map_of kvs ''height'') (JNum 1024),
          presetStyle = (case ps of None \<Rightarrow> ''FASHION'' | Some s \<Rightarrow> s)\<rparr>"
  using assms by (simp add: build_body_def)

lemma execute_submits:
  "build_body H args = Inr body \<Longrightarrow>
   \<exists>tr. snd (execute H apiKey R args) = Submit apiKey body # tr"
  by (cases "submission H (submitReply R)") (simp_all add: execute_no_job execute_polled)

lemma submission_not_ok:
  "\<not> ok res \<Longrightarrow>
   submission H (Responded res) =
     Inl (JsError (''Leonardo generation request failed ('' @ show_nat (status res) @ ''): ''
            @ or_else (readResponseText H res 4000) (statusText res)))"
  by (simp add: submission_def)

lemma submission_no_id:
  "ok res \<Longrightarrow> bodyJson res = Inr data \<Longrightarrow> generationId_of data = Inr g \<Longrightarrow> \<not> truthy g \<Longrightarrow>
   submission H (Responded res) = Inl (JsError ''Leonardo: no generationId in response'')"
  by (simp add: submission_def)

lemma example_body:
  "build_body spec_helpers (JObj [(''prompt'', JStr ''a cat'')]) =
     Inr \<lparr>prompt = Some ''a cat'', num_images = JNum 1, width = JNum 1024, height = JNum 1024,
          presetStyle = ''FASHION''\<rparr>"
  by (simp add: build_body_def spec_helpers_def spec_readStringParam_def default_to_def)

lemma schema_numbers:
  assumes "LeonardoGenerateImageSchema (JObj kvs)"
  shows "\<exists>n. default_to (map_of kvs ''num_images'') (JNum 1) = JNum n \<and> 1 \<le> n \<and> n \<le> 4 \<and>
             n = (case map_of kvs ''num_images'' of Some (JNum x) \<Rightarrow> x | _ \<Rightarrow> 1)"
    and "\<exists>w. default_to (map_of kvs ''width'') (JNum 1024) = JNum w \<and>
             w = (case map_of kvs ''width'' of Some (JNum x) \<Rightarrow> x | _ \<Rightarrow> 1024)"
    and "\<exists>h. default_to (map_of kvs ''height'') (JNum 1024) = JNum h \<and>
             h = (case map_of kvs ''height'' of Some (JNum x) \<Rightarrow> x | _ \<Rightarrow> 1024)"
  using assms
  by (auto simp: LeonardoGenerateImageSchema_def default_to_def split: option.splits json.splits)

lemma pollForCompletion_trace:
  "snd (pollForCompletion H replies g key t) =
     concat (replicate (status_queries (snd (pollForCompletion H replies g key t)))
               [Sleep 2000, Query key g])"
  using poll_loop_trace [of H replies g key "maxAttempts t" 0]
  by (simp add: pollForCompletion_def POLL_INTERVAL_MS_def)

lemma pollForCompletion_bound:
  "int (status_queries (snd (pollForCompletion H replies g key t))) \<le> max 0 (maxAttempts t)"
  using poll_loop_bound [of H replies g key "maxAttempts t" 0]
  by (simp add: pollForCompletion_def)

lemma maxAttempts_60: "maxAttempts 60 = 30"
  by (simp add: maxAttempts_eq)

lemma pollForCompletion_60_first:
  "\<exists>tr. snd (pollForCompletion H replies g key 60) = Sleep 2000 # Query key g # tr"
proof (cases rule: poll_loop_cases [where a=0 and maxA=30 and H=H and replies=replies])
  case stop
  then show ?thesis by simp
next
  case (throw e)
  then show ?thesis
    by (simp add: pollForCompletion_def maxAttempts_60 poll_loop_throw POLL_INTERVAL_MS_def)
next
  case (return urls)
  then show ?thesis
    by (simp add: pollForCompletion_def maxAttempts_60 poll_loop_return POLL_INTERVAL_MS_def)
next
  case continue
  then show ?thesis
    by (simp add: pollForCompletion_def maxAttempts_60 poll_loop_continue POLL_INTERVAL_MS_def)
qed

lemma sleeps_before_queries_cycles [simp]:
  "sleeps_before_queries ms (concat (replicate n [Sleep ms, Query key g]))"
  by (induction n) simp_all

lemma slept_cycles [simp]:
  "slept (concat (replicate n [Sleep ms, Query key g])) = n * ms"
  by (induction n) simp_all

lemma pollForCompletion_pending:
  assumes "\<forall>k. int k < maxAttempts t \<longrightarrow> poll_cycle H (replies k) = Inr None"
  shows "pollForCompletion H replies g key t =
     (Inl (JsError (''Leonardo generation timed out after ''
             @ show_int (maxAttempts t * 2) @ '' seconds'')),
      concat (replicate (nat (maxAttempts t)) [Sleep 2000, Query key g]))"
  using poll_loop_pending [of 0 "maxAttempts t" H replies g key] assms
  by (simp add: pollForCompletion_def POLL_INTERVAL_MS_def)

section \<open>The properties of the workflow\<close>

text \<open>
  C1. The attempt budget is computed once, before the loop, as
  \<open>min 30 \<lfloor>timeoutSeconds * 1000 / 2000\<rfloor>\<close>. For a timeout that is not negative, if every
  status query within the budget reports a status other than COMPLETE and FAILED (PENDING,
  or any other value, or none), the poller issues exactly that many status queries and
  then throws the timeout error, whose message states twice the budget as the seconds
  elapsed.
\<close>

theorem timeout_after_budget:
  assumes "0 \<le> timeoutSeconds"
    and "\<forall>k. int k < min 30 \<lfloor>timeoutSeconds * 1000 / 2000\<rfloor> \<longrightarrow>
           (\<exists>st. reply_status (replies k) = Some st \<and>
                 st \<noteq> Some (JStr ''COMPLETE'') \<and> st \<noteq> Some (JStr ''FAILED''))"
  shows "fst (pollForCompletion H replies g key timeoutSeconds) =
           Inl (JsError (''Leonardo generation timed out after ''
                  @ show_int (min 30 \<lfloor>timeoutSeconds * 1000 / 2000\<rfloor> * 2) @ '' seconds'')) \<and>
         int (status_queries (snd (pollForCompletion H replies g key timeoutSeconds))) =
           min 30 \<lfloor>timeoutSeconds * 1000 / 2000\<rfloor>"
proof -
  let ?m = "maxAttempts timeoutSeconds"
  have m: "?m = min 30 \<lfloor>timeoutSeconds * 1000 / 2000\<rfloor>"
    by (rule maxAttempts_eq)
  from assms(1) have "0 \<le> \<lfloor>timeoutSeconds * 1000 / 2000\<rfloor>" by simp
  then have nonneg: "0 \<le> ?m" by (simp add: m)
  have "\<forall>k. 0 \<le> k \<and> int k < ?m \<longrightarrow> poll_cycle H (replies k) = Inr None"
    using assms(2) by (auto simp: m intro: poll_cycle_pending)
  then have "poll_loop H replies g key ?m 0 =
     (Inl (JsError (''Leonardo generation timed out after ''
             @ show_int (?m * int (POLL_INTERVAL_MS div 1000)) @ '' seconds'')),
      concat (replicate (nat (?m - int 0)) [Sleep POLL_INTERVAL_MS, Query key g]))"
    by (rule poll_loop_pending)
  with nonneg have
    "fst (pollForCompletion H replies g key timeoutSeconds) =
       Inl (JsError (''Leonardo generation timed out after '' @ show_int (?m * 2) @ '' seconds'')) \<and>
     int (status_queries (snd (pollForCompletion H replies g key timeoutSeconds))) = ?m"
    by (simp add: pollForCompletion_def POLL_INTERVAL_MS_def)
  then show ?thesis
    unfolding m .
qed

theorem timeout_after_budget_witness:
  "(0::rat) \<le> 10 \<and>
   fst (pollForCompletion spec_helpers (\<lambda>k. status_report ''PENDING'' []) (JStr ''job-1'') ''key'' 10) =
     Inl (JsError ''Leonardo generation timed out after 10 seconds'') \<and>
   status_queries
     (snd (pollForCompletion spec_helpers (\<lambda>k. status_report ''PENDING'' []) (JStr ''job-1'') ''key'' 10)) = 5"
  using timeout_after_budget [of 10 "\<lambda>k. status_report ''PENDING'' []" spec_helpers "JStr ''job-1''" "''key''"]
  by (simp add: reply_status_def reply_generation_def status_report_def json_reply_def ok_def
        field_def show_int_def show_nat.simps digit_def)

text \<open>
  C2. For every argument value, every behaviour of the helpers and every behaviour of the
  remote service, the promise of \<^verbatim>\<open>execute\<close> is fulfilled, never rejected, and its
  payload is either the success object with \<^verbatim>\<open>generationId\<close>, \<^verbatim>\<open>imageUrls\<close> and
  \<^verbatim>\<open>count\<close> (the number of URLs) or the failure object with an \<^verbatim>\<open>error\<close> text and
  an empty \<^verbatim>\<open>imageUrls\<close>; whatever is thrown inside the \<^verbatim>\<open>try\<close> block (a rejected
  call, a malformed response, a FAILED status, no usable URLs, the timeout) ends as the
  failure object carrying its message.
\<close>

theorem execute_never_raises:
  "(\<exists>payload. fst (execute H apiKey R args) = Inr (jsonResult payload) \<and>
      ((\<exists>g urls. payload = JObj [(''generationId'', g), (''imageUrls'', JArr urls),
                                 (''count'', JNum (of_nat (length urls)))]) \<or>
       (\<exists>message. payload = JObj [(''error'', JStr message), (''imageUrls'', JArr [])]))) \<and>
   (\<forall>e. fst (execute_try H apiKey R args) = Inl e \<longrightarrow>
      fst (execute H apiKey R args) =
        Inr (jsonResult (JObj [(''error'', JStr (error_text e)), (''imageUrls'', JArr [])])))"
proof (intro conjI allI impI)
  show "\<exists>payload. fst (execute H apiKey R args) = Inr (jsonResult payload) \<and>
      ((\<exists>g urls. payload = JObj [(''generationId'', g), (''imageUrls'', JArr urls),
                                 (''count'', JNum (of_nat (length urls)))]) \<or>
       (\<exists>message. payload = JObj [(''error'', JStr message), (''imageUrls'', JArr [])]))"
  proof (cases rule: execute_cases [where H=H and args=args and R=R])
    case (no_body e)
    then show ?thesis by (simp add: execute_no_body jsonResult_def)
  next
    case (no_job body e)
    then show ?thesis by (simp add: execute_no_job jsonResult_def)
  next
    case (polled body g)
    then show ?thesis
      by (cases "fst (pollForCompletion H (statusReply R) g apiKey 60)")
         (simp_all add: execute_polled jsonResult_def)
  qed
next
  fix e
  assume "fst (execute_try H apiKey R args) = Inl e"
  then show "fst (execute H apiKey R args) =
        Inr (jsonResult (JObj [(''error'', JStr (error_text e)), (''imageUrls'', JArr [])]))"
    by (rule execute_try_Inl)
qed

theorem execute_never_raises_witness:
  "fst (execute spec_helpers ''key'' unreachable (JObj [(''prompt'', JStr ''a cat'')])) =
     Inr (jsonResult (JObj [(''error'', JStr ''fetch failed''), (''imageUrls'', JArr [])]))"
proof -
  have "fst (execute_try spec_helpers ''key'' unreachable (JObj [(''prompt'', JStr ''a cat'')])) =
          Inl (JsError ''fetch failed'')"
    by (simp add: execute_try_def build_body_def spec_helpers_def spec_readStringParam_def
          submission_def unreachable_def)
  with execute_never_raises [of spec_helpers "''key''" unreachable "JObj [(''prompt'', JStr ''a cat'')]"]
  show ?thesis by simp
qed

text \<open>
  C3. If the reply to a status query that the poller issued reports FAILED, the poller
  throws the failure error at once, and that query is its last one: after query number
  \<open>k\<close> (counted from 0) the trace holds \<open>k + 1\<close> status queries, whatever is left
  of the budget.
\<close>

theorem failed_status_aborts:
  assumes "k < status_queries (snd (pollForCompletion H replies g key timeoutSeconds))"
    and "reply_status (replies k) = Some (Some (JStr ''FAILED''))"
  shows "fst (pollForCompletion H replies g key timeoutSeconds) =
           Inl (JsError ''Leonardo generation failed'') \<and>
         status_queries (snd (pollForCompletion H replies g key timeoutSeconds)) = Suc k"
proof -
  have c: "poll_cycle H (replies k) = Inl (JsError ''Leonardo generation failed'')"
    using assms(2) by (rule poll_cycle_failed)
  then have "poll_cycle H (replies k) \<noteq> Inr None" by simp
  from pollForCompletion_terminal [OF assms(1) this] c show ?thesis by simp
qed

theorem failed_status_aborts_witness:
  "fst (pollForCompletion spec_helpers
          (\<lambda>k. if k < 2 then status_report ''PENDING'' [] else status_report ''FAILED'' [])
          (JStr ''job-1'') ''key'' 60) = Inl (JsError ''Leonardo generation failed'') \<and>
   status_queries (snd (pollForCompletion spec_helpers
          (\<lambda>k. if k < 2 then status_report ''PENDING'' [] else status_report ''FAILED'' [])
          (JStr ''job-1'') ''key'' 60)) = 3"
proof -
  let ?replies = "\<lambda>k::nat. if k < 2 then status_report ''PENDING'' [] else status_report ''FAILED'' []"
  have p: "poll_cycle spec_helpers (status_report ''PENDING'' []) = Inr None"
    by (simp add: poll_cycle_def status_report_def json_reply_def ok_def)
  have f: "poll_cycle spec_helpers (status_report ''FAILED'' []) =
             Inl (JsError ''Leonardo generation failed'')"
    by (simp add: poll_cycle_def status_report_def json_reply_def ok_def)
  have issued: "2 < status_queries (snd (pollForCompletion spec_helpers ?replies (JStr ''job-1'') ''key'' 60))"
    by (simp add: pollForCompletion_def maxAttempts_eq poll_loop_continue poll_loop_throw p f)
  have reported: "reply_status (?replies 2) = Some (Some (JStr ''FAILED''))"
    by (simp add: reply_status_def reply_generation_def status_report_def json_reply_def ok_def
          field_def)
  from failed_status_aborts [OF issued reported] show ?thesis by simp
qed

text \<open>
  C4. If the reply to a status query that the poller issued reports COMPLETE with a list of
  images (none of them null), the poller returns the URLs of the images in their order,
  the falsy ones (an absent or empty URL) left out, when any is left. For the images with
  the URLs \<open>a\<close>, the empty string and \<open>b\<close>, the result is exactly \<open>a\<close>, \<open>b\<close>.
\<close>

theorem complete_returns_urls:
  assumes "k < status_queries (snd (pollForCompletion H replies g key timeoutSeconds))"
    and "reply_status (replies k) = Some (Some (JStr ''COMPLETE''))"
    and "reply_images (replies k) = Some (Some (JArr imgs))"
    and "JNull \<notin> set imgs"
    and "filter truthy (map (\<lambda>img. field img ''url'') imgs) \<noteq> []"
  shows "fst (pollForCompletion H replies g key timeoutSeconds) =
           Inr (map the (filter truthy (map (\<lambda>img. field img ''url'') imgs)))"
proof -
  let ?urls = "map the (filter truthy (map (\<lambda>img. field img ''url'') imgs))"
  from assms(5) have ne: "?urls \<noteq> []" by simp
  have "poll_cycle H (replies k) =
          (case collect_urls (Some (JArr imgs)) of
             Inl e \<Rightarrow> Inl e
           | Inr urls \<Rightarrow>
               if urls = [] then
                 Inl (JsError ''Leonardo generation complete but no image URLs returned'')
               else Inr (Some urls))"
    using assms(2,3) by (rule poll_cycle_complete)
  with ne have c: "poll_cycle H (replies k) = Inr (Some ?urls)"
    by (simp add: collect_urls_array [OF assms(4)])
  then have "poll_cycle H (replies k) \<noteq> Inr None" by simp
  from pollForCompletion_terminal(2) [OF assms(1) this] c show ?thesis by simp
qed

theorem complete_returns_urls_witness:
  "fst (pollForCompletion spec_helpers
          (\<lambda>k. status_report ''COMPLETE''
                 [JObj [(''id'', JStr ''1''), (''url'', JStr ''a'')],
                  JObj [(''id'', JStr ''2''), (''url'', JStr [])],
                  JObj [(''id'', JStr ''3''), (''url'', JStr ''b'')]])
          (JStr ''job-1'') ''key'' 60) = Inr [JStr ''a'', JStr ''b'']"
proof -
  let ?imgs = "[JObj [(''id'', JStr ''1''), (''url'', JStr ''a'')],
                JObj [(''id'', JStr ''2''), (''url'', JStr [])],
                JObj [(''id'', JStr ''3''), (''url'', JStr ''b'')]]"
  let ?replies = "\<lambda>k::nat. status_report ''COMPLETE'' ?imgs"
  have c: "poll_cycle spec_helpers (status_report ''COMPLETE'' ?imgs) =
             Inr (Some [JStr ''a'', JStr ''b''])"
    by (simp add: poll_cycle_def status_report_def json_reply_def ok_def collect_urls_def)
  have issued: "0 < status_queries (snd (pollForCompletion spec_helpers ?replies (JStr ''job-1'') ''key'' 60))"
    by (simp add: pollForCompletion_def maxAttempts_eq poll_loop_return c)
  have st: "reply_status (?replies 0) = Some (Some (JStr ''COMPLETE''))"
    by (simp add: reply_status_def reply_generation_def status_report_def json_reply_def ok_def
          field_def)
  have im: "reply_images (?replies 0) = Some (Some (JArr ?imgs))"
    by (simp add: reply_images_def reply_generation_def status_report_def json_reply_def ok_def
          field_def)
  have nn: "JNull \<notin> set ?imgs" by simp
  have ne: "filter truthy (map (\<lambda>img. field img ''url'') ?imgs) \<noteq> []"
    by (simp add: field_def)
  from complete_returns_urls [OF issued st im nn ne] show ?thesis
    by (simp add: field_def)
qed

text \<open>
  C5. If the reply to a status query that the poller issued reports COMPLETE with no image
  list (absent or null), with an empty list, or with images whose URLs are all falsy (an
  absent or empty URL), the poller throws the error that no image URLs were returned; and
  the poller never returns an empty list of URLs.
\<close>

theorem complete_without_urls_fails:
  "(k < status_queries (snd (pollForCompletion H replies g key timeoutSeconds)) \<and>
    reply_status (replies k) = Some (Some (JStr ''COMPLETE'')) \<and>
    (reply_images (replies k) = Some None \<or>
     reply_images (replies k) = Some (Some JNull) \<or>
     (\<exists>imgs. reply_images (replies k) = Some (Some (JArr imgs)) \<and> JNull \<notin> set imgs \<and>
        (\<forall>img \<in> set imgs. \<not> truthy (field img ''url''))))
    \<longrightarrow> fst (pollForCompletion H replies g key timeoutSeconds) =
          Inl (JsError ''Leonardo generation complete but no image URLs returned'')) \<and>
   fst (pollForCompletion H replies g key timeoutSeconds) \<noteq> Inr []"
proof (intro conjI impI)
  assume a: "k < status_queries (snd (pollForCompletion H replies g key timeoutSeconds)) \<and>
    reply_status (replies k) = Some (Some (JStr ''COMPLETE'')) \<and>
    (reply_images (replies k) = Some None \<or>
     reply_images (replies k) = Some (Some JNull) \<or>
     (\<exists>imgs. reply_images (replies k) = Some (Some (JArr imgs)) \<and> JNull \<notin> set imgs \<and>
        (\<forall>img \<in> set imgs. \<not> truthy (field img ''url''))))"
  then obtain imgs where im: "reply_images (replies k) = Some imgs"
    and none: "collect_urls imgs = Inr []"
  proof (elim conjE disjE exE)
    assume "reply_images (replies k) = Some None"
    moreover have "collect_urls None = Inr []" by (simp add: collect_urls_def)
    ultimately show ?thesis by (rule that)
  next
    assume "reply_images (replies k) = Some (Some JNull)"
    moreover have "collect_urls (Some JNull) = Inr []" by (simp add: collect_urls_def)
    ultimately show ?thesis by (rule that)
  next
    fix xs
    assume r: "reply_images (replies k) = Some (Some (JArr xs))"
      and nn: "JNull \<notin> set xs" and f: "\<forall>img \<in> set xs. \<not> truthy (field img ''url'')"
    from f have "filter truthy (map (\<lambda>img. field img ''url'') xs) = []"
      by (induction xs) simp_all
    then have "collect_urls (Some (JArr xs)) = Inr []"
      by (simp add: collect_urls_array [OF nn])
    with r show ?thesis by (rule that)
  qed
  from a have st: "reply_status (replies k) = Some (Some (JStr ''COMPLETE''))" by simp
  have c: "poll_cycle H (replies k) =
             Inl (JsError ''Leonardo generation complete but no image URLs returned'')"
    using poll_cycle_complete [OF st im, of H] none by simp
  then have nc: "poll_cycle H (replies k) \<noteq> Inr None" by simp
  from a have issued: "k < status_queries (snd (pollForCompletion H replies g key timeoutSeconds))"
    by simp
  from pollForCompletion_terminal(2) [OF issued nc] c
  show "fst (pollForCompletion H replies g key timeoutSeconds) =
          Inl (JsError ''Leonardo generation complete but no image URLs returned'')"
    by simp
next
  show "fst (pollForCompletion H replies g key timeoutSeconds) \<noteq> Inr []"
    by (simp add: pollForCompletion_def poll_loop_nonempty)
qed

theorem complete_without_urls_fails_witness:
  "fst (pollForCompletion spec_helpers
          (\<lambda>k. status_report ''COMPLETE'' [JObj [(''id'', JStr ''1''), (''url'', JStr [])]])
          (JStr ''job-1'') ''key'' 60) =
     Inl (JsError ''Leonardo generation complete but no image URLs returned'')"
proof -
  let ?imgs = "[JObj [(''id'', JStr ''1''), (''url'', JStr [])]]"
  let ?replies = "\<lambda>k::nat. status_report ''COMPLETE'' ?imgs"
  have c: "poll_cycle spec_helpers (status_report ''COMPLETE'' ?imgs) =
             Inl (JsError ''Leonardo generation complete but no image URLs returned'')"
    by (simp add: poll_cycle_def status_report_def json_reply_def ok_def collect_urls_def)
  have issued: "0 < status_queries (snd (pollForCompletion spec_helpers ?replies (JStr ''job-1'') ''key'' 60))"
    by (simp add: pollForCompletion_def maxAttempts_eq poll_loop_throw c)
  have st: "reply_status (?replies 0) = Some (Some (JStr ''COMPLETE''))"
    by (simp add: reply_status_def reply_generation_def status_report_def json_reply_def ok_def
          field_def)
  have im: "reply_images (?replies 0) = Some (Some (JArr ?imgs))"
    by (simp add: reply_images_def reply_generation_def status_report_def json_reply_def ok_def
          field_def)
  have f: "JNull \<notin> set ?imgs \<and> (\<forall>img \<in> set ?imgs. \<not> truthy (field img ''url''))"
    by (simp add: field_def)
  from complete_without_urls_fails [of 0 spec_helpers ?replies "JStr ''job-1''" "''key''" 60]
    issued st im f
  show ?thesis by blast
qed

text \<open>
  C6. If the reply to the creation call has a status outside 200 to 299, the operation
  fails at once: the error text holds the status code and the excerpt of the response body
  that \<^verbatim>\<open>readResponseText\<close> gives for a limit of 4000 bytes (the status text when the
  excerpt is empty), and the trace holds the creation call alone, no status query. A reply
  whose body parses but has no truthy \<^verbatim>\<open>sdGenerationJob.generationId\<close> fails the same
  way, with the error that the response has no generation id, before any status query.
\<close>

theorem submission_failure_stops:
  "(build_body H args = Inr body \<and> submitReply R = Responded res \<and> \<not> ok res \<longrightarrow>
      execute H apiKey R args =
        (Inr (jsonResult (JObj
           [(''error'', JStr (''Leonardo generation request failed ('' @ show_nat (status res)
                               @ ''): '' @ or_else (readResponseText H res 4000) (statusText res))),
            (''imageUrls'', JArr [])])),
         [Submit apiKey body]) \<and>
      status_queries (snd (execute H apiKey R args)) = 0) \<and>
   (build_body H args = Inr body \<and> submitReply R = Responded res \<and> ok res \<and>
    bodyJson res = Inr data \<and> generationId_of data = Inr g \<and> \<not> truthy g \<longrightarrow>
      execute H apiKey R args =
        (Inr (jsonResult (JObj
           [(''error'', JStr ''Leonardo: no generationId in response''),
            (''imageUrls'', JArr [])])),
         [Submit apiKey body]) \<and>
      status_queries (snd (execute H apiKey R args)) = 0)"
proof (intro conjI impI)
  assume a: "build_body H args = Inr body \<and> submitReply R = Responded res \<and> \<not> ok res"
  then have "submission H (submitReply R) =
     Inl (JsError (''Leonardo generation request failed ('' @ show_nat (status res) @ ''): ''
            @ or_else (readResponseText H res 4000) (statusText res)))"
    by (simp add: submission_not_ok)
  with a have e: "execute H apiKey R args =
        (Inr (jsonResult (JObj
           [(''error'', JStr (''Leonardo generation request failed ('' @ show_nat (status res)
                               @ ''): '' @ or_else (readResponseText H res 4000) (statusText res))),
            (''imageUrls'', JArr [])])),
         [Submit apiKey body])"
    by (simp add: execute_no_job)
  then show "execute H apiKey R args =
        (Inr (jsonResult (JObj
           [(''error'', JStr (''Leonardo generation request failed ('' @ show_nat (status res)
                               @ ''): '' @ or_else (readResponseText H res 4000) (statusText res))),
            (''imageUrls'', JArr [])])),
         [Submit apiKey body])" .
  from e show "status_queries (snd (execute H apiKey R args)) = 0" by simp
next
  assume a: "build_body H args = Inr body \<and> submitReply R = Responded res \<and> ok res \<and>
    bodyJson res = Inr data \<and> generationId_of data = Inr g \<and> \<not> truthy g"
  then have "submission H (submitReply R) = Inl (JsError ''Leonardo: no generationId in response'')"
    by (simp add: submission_no_id)
  with a have e: "execute H apiKey R args =
        (Inr (jsonResult (JObj
           [(''error'', JStr ''Leonardo: no generationId in response''),
            (''imageUrls'', JArr [])])),
         [Submit apiKey body])"
    by (simp add: execute_no_job)
  then show "execute H apiKey R args =
        (Inr (jsonResult (JObj
           [(''error'', JStr ''Leonardo: no generationId in response''),
            (''imageUrls'', JArr [])])),
         [Submit apiKey body])" .
  from e show "status_queries (snd (execute H apiKey R args)) = 0" by simp
qed

theorem submission_failure_stops_witness:
  "execute spec_helpers ''key''
     \<lparr>submitReply = Responded \<lparr>status = 500, statusText = ''Internal Server Error'',
                                bodyText = ''overloaded'', bodyJson = Inl (JsError ''Unexpected token'')\<rparr>,
      statusReply = (\<lambda>k. status_report ''COMPLETE'' [])\<rparr>
     (JObj [(''prompt'', JStr ''a cat'')]) =
   (Inr (jsonResult (JObj
      [(''error'', JStr ''Leonardo generation request failed (500): overloaded''),
       (''imageUrls'', JArr [])])),
    [Submit ''key'' \<lparr>prompt = Some ''a cat'', num_images = JNum 1, width = JNum 1024,
                     height = JNum 1024, presetStyle = ''FASHION''\<rparr>]) \<and>
   execute spec_helpers ''key''
     \<lparr>submitReply = json_reply (JObj [(''sdGenerationJob'', JObj [])]),
      statusReply = (\<lambda>k. status_report ''COMPLETE'' [])\<rparr>
     (JObj [(''prompt'', JStr ''a cat'')]) =
   (Inr (jsonResult (JObj
      [(''error'', JStr ''Leonardo: no generationId in response''), (''imageUrls'', JArr [])])),
    [Submit ''key'' \<lparr>prompt = Some ''a cat'', num_images = JNum 1, width = JNum 1024,
                     height = JNum 1024, presetStyle = ''FASHION''\<rparr>])"
proof -
  let ?res = "\<lparr>status = 500, statusText = ''Internal Server Error'',
               bodyText = ''overloaded'', bodyJson = Inl (JsError ''Unexpected token'')\<rparr>"
  let ?R1 = "\<lparr>submitReply = Responded ?res, statusReply = (\<lambda>k. status_report ''COMPLETE'' [])\<rparr>"
  let ?res2 = "\<lparr>status = 200, statusText = ''OK'', bodyText = [],
                bodyJson = Inr (JObj [(''sdGenerationJob'', JObj [])])\<rparr>"
  let ?R2 = "\<lparr>submitReply = Responded ?res2, statusReply = (\<lambda>k. status_report ''COMPLETE'' [])\<rparr>"
  have g: "generationId_of (JObj [(''sdGenerationJob'', JObj [])]) = Inr None"
    by (simp add: generationId_of_def)
  have s: "show_nat 500 = ''500''"
    by (simp add: show_nat.simps digit_def)
  from submission_failure_stops
         [where H=spec_helpers and args="JObj [(''prompt'', JStr ''a cat'')]" and R="?R1"
            and res="?res" and apiKey="''key''"]
       example_body s
  have 1: "execute spec_helpers ''key'' ?R1 (JObj [(''prompt'', JStr ''a cat'')]) =
   (Inr (jsonResult (JObj
      [(''error'', JStr ''Leonardo generation request failed (500): overloaded''),
       (''imageUrls'', JArr [])])),
    [Submit ''key'' \<lparr>prompt = Some ''a cat'', num_images = JNum 1, width = JNum 1024,
                     height = JNum 1024, presetStyle = ''FASHION''\<rparr>])"
    by (simp add: ok_def spec_helpers_def spec_readResponseText_def or_else_def)
  from submission_failure_stops
         [where H=spec_helpers and args="JObj [(''prompt'', JStr ''a cat'')]" and R="?R2"
            and res="?res2" and data="JObj [(''sdGenerationJob'', JObj [])]" and g=None
            and apiKey="''key''"]
       example_body g
  have 2: "execute spec_helpers ''key'' ?R2 (JObj [(''prompt'', JStr ''a cat'')]) =
   (Inr (jsonResult (JObj
      [(''error'', JStr ''Leonardo: no generationId in response''), (''imageUrls'', JArr [])])),
    [Submit ''key'' \<lparr>prompt = Some ''a cat'', num_images = JNum 1, width = JNum 1024,
                     height = JNum 1024, presetStyle = ''FASHION''\<rparr>])"
    by (simp add: ok_def)
  from 1 2 show ?thesis by (simp add: json_reply_def)
qed

text \<open>
  C7. The body of the creation call is exactly \<^verbatim>\<open>{prompt, num_images, width, height,
  presetStyle}\<close>: the prompt and the style are what \<^verbatim>\<open>readStringParam\<close> returns for
  them, the style \<^verbatim>\<open>FASHION\<close> when it returns none; \<^verbatim>\<open>num_images\<close>, \<^verbatim>\<open>width\<close> and
  \<^verbatim>\<open>height\<close> are the values of the arguments as supplied, and 1, 1024 and 1024 when they
  are absent (or null). With 2, 512, 768 and \<^verbatim>\<open>CINEMATIC\<close> supplied, these appear
  unchanged in the body.
\<close>

theorem submitted_body:
  assumes "readStringParam H (JObj kvs) ''prompt'' True = Inr p"
    and "readStringParam H (JObj kvs) ''preset_style'' False = Inr ps"
  shows "\<exists>tr. snd (execute H apiKey R (JObj kvs)) =
           Submit apiKey
             \<lparr>prompt = p,
              num_images = default_to (map_of kvs ''num_images'') (JNum 1),
              width = default_to (map_of kvs ''width'') (JNum 1024),
              height = default_to (map_of kvs ''height'') (JNum 1024),
              presetStyle = (case ps of None \<Rightarrow> ''FASHION'' | Some s \<Rightarrow> s)\<rparr> # tr"
  using build_body_object [OF assms] by (rule execute_submits)

theorem submitted_body_witness:
  "snd (execute spec_helpers ''key'' unreachable
          (JObj [(''prompt'', JStr ''a cat''), (''num_images'', JNum 2), (''width'', JNum 512),
                 (''height'', JNum 768), (''preset_style'', JStr ''CINEMATIC'')])) =
     [Submit ''key'' \<lparr>prompt = Some ''a cat'', num_images = JNum 2, width = JNum 512,
                      height = JNum 768, presetStyle = ''CINEMATIC''\<rparr>] \<and>
   snd (execute spec_helpers ''key'' unreachable (JObj [(''prompt'', JStr ''a cat'')])) =
     [Submit ''key'' \<lparr>prompt = Some ''a cat'', num_images = JNum 1, width = JNum 1024,
                      height = JNum 1024, presetStyle = ''FASHION''\<rparr>]"
proof -
  let ?kvs = "[(''prompt'', JStr ''a cat''), (''num_images'', JNum 2), (''width'', JNum 512),
               (''height'', JNum 768), (''preset_style'', JStr ''CINEMATIC'')]"
  have short: "length (snd (execute spec_helpers ''key'' unreachable args)) \<le> 1" for args
  proof (cases rule: execute_cases [where H=spec_helpers and R=unreachable and args=args])
    case (no_body e)
    then show ?thesis by (simp add: execute_no_body)
  next
    case (no_job body e)
    then show ?thesis by (simp add: execute_no_job)
  next
    case (polled body g)
    then show ?thesis by (simp add: submission_def unreachable_def)
  qed
  have p1: "readStringParam spec_helpers (JObj ?kvs) ''prompt'' True = Inr (Some ''a cat'')"
    by (simp add: spec_helpers_def spec_readStringParam_def)
  have s1: "readStringParam spec_helpers (JObj ?kvs) ''preset_style'' False = Inr (Some ''CINEMATIC'')"
    by (simp add: spec_helpers_def spec_readStringParam_def)
  have p2: "readStringParam spec_helpers (JObj [(''prompt'', JStr ''a cat'')]) ''prompt'' True =
              Inr (Some ''a cat'')"
    by (simp add: spec_helpers_def spec_readStringParam_def)
  have s2: "readStringParam spec_helpers (JObj [(''prompt'', JStr ''a cat'')]) ''preset_style'' False =
              Inr None"
    by (simp add: spec_helpers_def spec_readStringParam_def)
  from submitted_body [OF p1 s1, of "''key''" unreachable] short [of "JObj ?kvs"]
  have 1: "snd (execute spec_helpers ''key'' unreachable (JObj ?kvs)) =
     [Submit ''key'' \<lparr>prompt = Some ''a cat'', num_images = JNum 2, width = JNum 512,
                      height = JNum 768, presetStyle = ''CINEMATIC''\<rparr>]"
    by (auto simp: default_to_def)
  from submitted_body [OF p2 s2, of "''key''" unreachable]
    short [of "JObj [(''prompt'', JStr ''a cat'')]"]
  have 2: "snd (execute spec_helpers ''key'' unreachable (JObj [(''prompt'', JStr ''a cat'')])) =
     [Submit ''key'' \<lparr>prompt = Some ''a cat'', num_images = JNum 1, width = JNum 1024,
                      height = JNum 1024, presetStyle = ''FASHION''\<rparr>]"
    by (auto simp: default_to_def)
  from 1 2 show ?thesis by simp
qed

text \<open>
  C8, as stated, does not hold: a request that the schema accepts, with width 7 (no
  multiple of 8) and height 2000 (above 1536), is submitted as it is.
\<close>

theorem request_bounds_counterexample:
  "LeonardoGenerateImageSchema
     (JObj [(''prompt'', JStr ''a cat''), (''num_images'', JNum 2), (''width'', JNum 7),
            (''height'', JNum 2000)]) \<and>
   snd (execute spec_helpers ''key'' unreachable
          (JObj [(''prompt'', JStr ''a cat''), (''num_images'', JNum 2), (''width'', JNum 7),
                 (''height'', JNum 2000)])) =
     [Submit ''key'' \<lparr>prompt = Some ''a cat'', num_images = JNum 2, width = JNum 7,
                      height = JNum 2000, presetStyle = ''FASHION''\<rparr>] \<and>
   \<not> spec_request_bounds \<lparr>prompt = Some ''a cat'', num_images = JNum 2, width = JNum 7,
                           height = JNum 2000, presetStyle = ''FASHION''\<rparr>"
proof -
  let ?args = "JObj [(''prompt'', JStr ''a cat''), (''num_images'', JNum 2), (''width'', JNum 7),
                     (''height'', JNum 2000)]"
  let ?body = "\<lparr>prompt = Some ''a cat'', num_images = JNum 2, width = JNum 7,
                height = JNum 2000, presetStyle = ''FASHION''\<rparr>"
  have schema: "LeonardoGenerateImageSchema ?args"
    by (simp add: LeonardoGenerateImageSchema_def)
  have body: "build_body spec_helpers ?args = Inr ?body"
    by (simp add: build_body_def spec_helpers_def spec_readStringParam_def default_to_def)
  have "submission spec_helpers (submitReply unreachable) = Inl (JsError ''fetch failed'')"
    by (simp add: submission_def unreachable_def)
  with body have sent: "snd (execute spec_helpers ''key'' unreachable ?args) = [Submit ''key'' ?body]"
    by (simp add: execute_no_job)
  have "\<not> spec_dimension (JNum 7)"
    by (simp add: spec_dimension_def)
  then have bad: "\<not> spec_request_bounds ?body"
    by (simp add: spec_request_bounds_def)
  from schema sent bad show ?thesis by simp
qed

text \<open>
  C8, amended. \<^verbatim>\<open>execute\<close> fills in defaults and checks no bound before the creation
  call. For every argument object that the parameter schema accepts and whose prompt and
  style are read, the creation call is issued with \<^verbatim>\<open>num_images\<close>, \<^verbatim>\<open>width\<close> and
  \<^verbatim>\<open>height\<close> exactly as supplied (1, 1024 and 1024 when absent): the image count is
  then a number from 1 to 4, the one bound the schema declares, and width and height are
  whatever numbers were supplied.
\<close>

theorem request_not_validated:
  assumes "LeonardoGenerateImageSchema (JObj kvs)"
    and "readStringParam H (JObj kvs) ''prompt'' True = Inr p"
    and "readStringParam H (JObj kvs) ''preset_style'' False = Inr ps"
  shows "\<exists>body tr n w h.
           snd (execute H apiKey R (JObj kvs)) = Submit apiKey body # tr \<and>
           num_images body = JNum n \<and> width body = JNum w \<and> height body = JNum h \<and>
           1 \<le> n \<and> n \<le> 4 \<and>
           n = (case map_of kvs ''num_images'' of Some (JNum x) \<Rightarrow> x | _ \<Rightarrow> 1) \<and>
           w = (case map_of kvs ''width'' of Some (JNum x) \<Rightarrow> x | _ \<Rightarrow> 1024) \<and>
           h = (case map_of kvs ''height'' of Some (JNum x) \<Rightarrow> x | _ \<Rightarrow> 1024)"
proof -
  let ?body = "\<lparr>prompt = p,
          num_images = default_to (map_of kvs ''num_images'') (JNum 1),
          width = default_to (map_of kvs ''width'') (JNum 1024),
          height = default_to (map_of kvs ''height'') (JNum 1024),
          presetStyle = (case ps of None \<Rightarrow> ''FASHION'' | Some s \<Rightarrow> s)\<rparr>"
  have "build_body H (JObj kvs) = Inr ?body"
    using assms(2,3) by (rule build_body_object)
  then obtain tr where tr: "snd (execute H apiKey R (JObj kvs)) = Submit apiKey ?body # tr"
    using execute_submits by blast
  from schema_numbers [OF assms(1)] obtain n w h where
    "num_images ?body = JNum n" "1 \<le> n" "n \<le> 4"
    "n = (case map_of kvs ''num_images'' of Some (JNum x) \<Rightarrow> x | _ \<Rightarrow> 1)"
    "width ?body = JNum w" "w = (case map_of kvs ''width'' of Some (JNum x) \<Rightarrow> x | _ \<Rightarrow> 1024)"
    "height ?body = JNum h" "h = (case map_of kvs ''height'' of Some (JNum x) \<Rightarrow> x | _ \<Rightarrow> 1024)"
    by auto
  with tr show ?thesis by blast
qed

theorem request_not_validated_witness:
  "\<exists>body tr.
     snd (execute spec_helpers ''key'' unreachable
            (JObj [(''prompt'', JStr ''a cat''), (''num_images'', JNum 4), (''width'', JNum 1537),
                   (''height'', JNum 3)])) = Submit ''key'' body # tr \<and>
     num_images body = JNum 4 \<and> width body = JNum 1537 \<and> height body = JNum 3"
proof -
  let ?kvs = "[(''prompt'', JStr ''a cat''), (''num_images'', JNum 4), (''width'', JNum 1537),
               (''height'', JNum 3)]"
  have schema: "LeonardoGenerateImageSchema (JObj ?kvs)"
    by (simp add: LeonardoGenerateImageSchema_def)
  have p: "readStringParam spec_helpers (JObj ?kvs) ''prompt'' True = Inr (Some ''a cat'')"
    by (simp add: spec_helpers_def spec_readStringParam_def)
  have s: "readStringParam spec_helpers (JObj ?kvs) ''preset_style'' False = Inr None"
    by (simp add: spec_helpers_def spec_readStringParam_def)
  from request_not_validated [OF schema p s, of "''key''" unreachable]
  show ?thesis by simp
qed

text \<open>
  C9. Whenever the arguments are read and the creation call returns a job identifier, the
  operation sleeps 2000 ms and issues a status query for that identifier right after the
  creation call, so at least one status query precedes any result; and every status query
  of the trace comes directly after a sleep of 2000 ms.
\<close>

theorem polls_before_result:
  assumes "build_body H args = Inr body" and "submission H (submitReply R) = Inr g"
  shows "(\<exists>tr. snd (execute H apiKey R args) =
                 Submit apiKey body # Sleep 2000 # Query apiKey g # tr) \<and>
         1 \<le> status_queries (snd (execute H apiKey R args)) \<and>
         sleeps_before_queries 2000 (snd (execute H apiKey R args))"
proof -
  let ?P = "pollForCompletion H (statusReply R) g apiKey 60"
  have tr: "snd (execute H apiKey R args) = Submit apiKey body # snd ?P"
    using assms by (simp add: execute_polled)
  obtain rest where first: "snd ?P = Sleep 2000 # Query apiKey g # rest"
    using pollForCompletion_60_first by blast
  have "sleeps_before_queries 2000 (snd ?P)"
    by (subst pollForCompletion_trace) simp
  with tr first show ?thesis by simp
qed

theorem polls_before_result_witness:
  "\<exists>tr. snd (execute spec_helpers ''key''
               \<lparr>submitReply = job_created ''job-1'',
                statusReply = (\<lambda>k. status_report ''COMPLETE'' [JObj [(''url'', JStr ''a'')]])\<rparr>
               (JObj [(''prompt'', JStr ''a cat'')])) =
     Submit ''key'' \<lparr>prompt = Some ''a cat'', num_images = JNum 1, width = JNum 1024,
                     height = JNum 1024, presetStyle = ''FASHION''\<rparr>
       # Sleep 2000 # Query ''key'' (JStr ''job-1'') # tr"
proof -
  let ?R = "\<lparr>submitReply = job_created ''job-1'',
             statusReply = (\<lambda>k. status_report ''COMPLETE'' [JObj [(''url'', JStr ''a'')]])\<rparr>"
  have "submission spec_helpers (submitReply ?R) = Inr (JStr ''job-1'')"
    by (simp add: submission_def job_created_def json_reply_def ok_def generationId_of_def)
  from polls_before_result [OF example_body this, of "''key''"] show ?thesis by simp
qed

text \<open>
  C10. \<^verbatim>\<open>execute\<close> always calls the poller with the timeout 60, whatever the arguments
  hold: the attempt budget is \<open>min 30 \<lfloor>60000 / 2000\<rfloor> = 30\<close>, no invocation issues more
  than 30 status queries or sleeps more than 60000 ms, and when every reply within the
  budget keeps the loop going the operation issues exactly 30 queries, sleeps 60000 ms and
  reports the timeout after 60 seconds.
\<close>

theorem fixed_poll_budget:
  "maxAttempts 60 = 30 \<and>
   status_queries (snd (execute H apiKey R args)) \<le> 30 \<and>
   slept (snd (execute H apiKey R args)) \<le> 60000 \<and>
   (\<forall>body g. build_body H args = Inr body \<and> submission H (submitReply R) = Inr g \<longrightarrow>
      snd (execute H apiKey R args) =
        Submit apiKey body # snd (pollForCompletion H (statusReply R) g apiKey 60)) \<and>
   (\<forall>body g. build_body H args = Inr body \<and> submission H (submitReply R) = Inr g \<and>
      (\<forall>k<30. \<exists>st. reply_status (statusReply R k) = Some st \<and>
                 st \<noteq> Some (JStr ''COMPLETE'') \<and> st \<noteq> Some (JStr ''FAILED'')) \<longrightarrow>
      status_queries (snd (execute H apiKey R args)) = 30 \<and>
      slept (snd (execute H apiKey R args)) = 60000 \<and>
      fst (execute H apiKey R args) =
        Inr (jsonResult (JObj
          [(''error'', JStr ''Leonardo generation timed out after 60 seconds''),
           (''imageUrls'', JArr [])])))"
proof (intro conjI allI impI)
  show "maxAttempts 60 = 30" by (rule maxAttempts_60)
next
  have n: "status_queries (snd (execute H apiKey R args)) \<le> 30 \<and>
           slept (snd (execute H apiKey R args)) \<le> 60000"
  proof (cases rule: execute_cases [where H=H and args=args and R=R])
    case (no_body e)
    then show ?thesis by (simp add: execute_no_body)
  next
    case (no_job body e)
    then show ?thesis by (simp add: execute_no_job)
  next
    case (polled body g)
    let ?P = "pollForCompletion H (statusReply R) g apiKey 60"
    have b: "status_queries (snd ?P) \<le> 30"
      using pollForCompletion_bound [of H "statusReply R" g apiKey 60]
      by (simp add: maxAttempts_60)
    have "slept (snd ?P) = status_queries (snd ?P) * 2000"
      by (subst pollForCompletion_trace) simp
    with b have "slept (snd ?P) \<le> 60000" by simp
    with b polled show ?thesis by (simp add: execute_polled)
  qed
  from n show "status_queries (snd (execute H apiKey R args)) \<le> 30" by simp
  from n show "slept (snd (execute H apiKey R args)) \<le> 60000" by simp
next
  fix body g
  assume "build_body H args = Inr body \<and> submission H (submitReply R) = Inr g"
  then show "snd (execute H apiKey R args) =
        Submit apiKey body # snd (pollForCompletion H (statusReply R) g apiKey 60)"
    by (simp add: execute_polled)
next
  fix body g
  assume a: "build_body H args = Inr body \<and> submission H (submitReply R) = Inr g \<and>
      (\<forall>k<30. \<exists>st. reply_status (statusReply R k) = Some st \<and>
                 st \<noteq> Some (JStr ''COMPLETE'') \<and> st \<noteq> Some (JStr ''FAILED''))"
  then have "\<forall>k. int k < maxAttempts 60 \<longrightarrow> poll_cycle H (statusReply R k) = Inr None"
    by (auto simp: maxAttempts_60 intro: poll_cycle_pending)
  then have P: "pollForCompletion H (statusReply R) g apiKey 60 =
     (Inl (JsError (''Leonardo generation timed out after ''
             @ show_int (maxAttempts 60 * 2) @ '' seconds'')),
      concat (replicate (nat (maxAttempts 60)) [Sleep 2000, Query apiKey g]))"
    by (rule pollForCompletion_pending)
  have s: "show_int 60 = ''60''"
    by (simp add: show_int_def show_nat.simps digit_def)
  from a P s have e: "execute H apiKey R args =
     (Inr (jsonResult (JObj
          [(''error'', JStr ''Leonardo generation timed out after 60 seconds''),
           (''imageUrls'', JArr [])])),
      Submit apiKey body # concat (replicate 30 [Sleep 2000, Query apiKey g]))"
    by (simp add: execute_polled maxAttempts_60)
  from e show "status_queries (snd (execute H apiKey R args)) = 30" by simp
  from e show "slept (snd (execute H apiKey R args)) = 60000" by simp
  from e show "fst (execute H apiKey R args) =
        Inr (jsonResult (JObj
          [(''error'', JStr ''Leonardo generation timed out after 60 seconds''),
           (''imageUrls'', JArr [])]))" by simp
qed

theorem fixed_poll_budget_witness:
  "status_queries
     (snd (execute spec_helpers ''key''
             \<lparr>submitReply = job_created ''job-1'',
              statusReply = (\<lambda>k. status_report ''PENDING'' [])\<rparr>
             (JObj [(''prompt'', JStr ''a cat''), (''timeoutSeconds'', JNum 5)]))) = 30 \<and>
   fst (execute spec_helpers ''key''
          \<lparr>submitReply = job_created ''job-1'',
           statusReply = (\<lambda>k. status_report ''PENDING'' [])\<rparr>
          (JObj [(''prompt'', JStr ''a cat''), (''timeoutSeconds'', JNum 5)])) =
     Inr (jsonResult (JObj
       [(''error'', JStr ''Leonardo generation timed out after 60 seconds''),
        (''imageUrls'', JArr [])]))"
proof -
  let ?R = "\<lparr>submitReply = job_created ''job-1'',
             statusReply = (\<lambda>k. status_report ''PENDING'' [])\<rparr>"
  let ?args = "JObj [(''prompt'', JStr ''a cat''), (''timeoutSeconds'', JNum 5)]"
  let ?body = "\<lparr>prompt = Some ''a cat'', num_images = JNum 1, width = JNum 1024,
                height = JNum 1024, presetStyle = ''FASHION''\<rparr>"
  have b: "build_body spec_helpers ?args = Inr ?body"
    by (simp add: build_body_def spec_helpers_def spec_readStringParam_def default_to_def)
  have j: "submission spec_helpers (submitReply ?R) = Inr (JStr ''job-1'')"
    by (simp add: submission_def job_created_def json_reply_def ok_def generationId_of_def)
  have p: "\<forall>k<30. \<exists>st. reply_status (statusReply ?R k) = Some st \<and>
                 st \<noteq> Some (JStr ''COMPLETE'') \<and> st \<noteq> Some (JStr ''FAILED'')"
    by (simp add: reply_status_def reply_generation_def status_report_def json_reply_def ok_def
          field_def)
  from fixed_poll_budget [of spec_helpers "''key''" ?R ?args] b j p
  show ?thesis by blast
qed

end
